theory Spec2Isabelle
  imports Main "HOL-Library.Word" "HOL-Library.Sublist"
begin

section \<open>The chat widget of src/components/ChatInterface.tsx\<close>

text \<open>
  The component keeps five pieces of React state (\<open>messages\<close>, \<open>inputMessage\<close>,
  \<open>isLoading\<close>, \<open>selectedAI\<close>, \<open>selectedLanguage\<close>) and has one asynchronous handler,
  \<open>handleSendMessage\<close>.  The handler is modelled in two parts, split where it awaits the
  network: the synchronous part up to the call of \<open>fetch\<close>, and the continuation that runs
  when the call has settled.  Each part yields the list of effects it performs, in source
  order; the dispatcher applies them to the widget.  A handler reads the state through the
  closure of the render it was created in, so both parts take that render's values as an
  argument, and the continuation keeps the values of the render in which it was started.

  Three things lie outside the file and are taken as follows.  React renders again after
  each event, so an event is handled by the handlers of the render of the current state.
  \<open>Input\<close> and \<open>Button\<close> (imported from \<open>components/ui\<close>) pass \<open>disabled\<close> on to the
  native controls, which deliver no event while disabled.  The callback \<open>onStatsUpdate\<close>
  returns normally; what it does with the updater it is given is its own business, so only
  its calls are counted.
\<close>

subsection \<open>Strings\<close>

text \<open>A JavaScript string is a sequence of UTF-16 code units.\<close>

type_synonym js_string = "16 word list"

definition js :: "string \<Rightarrow> js_string" where
  "js s = map of_char s"

text \<open>
  \<open>String.prototype.trim\<close> removes the code units of WhiteSpace and LineTerminator
  (ECMAScript 2015 and later) from both ends.
\<close>

definition isWhiteSpace :: "16 word \<Rightarrow> bool" where
  "isWhiteSpace c =
     (c = 0x0009 \<or> c = 0x000A \<or> c = 0x000B \<or> c = 0x000C \<or> c = 0x000D \<or> c = 0x0020 \<or>
      c = 0x00A0 \<or> c = 0x1680 \<or> (0x2000 \<le> c \<and> c \<le> 0x200A) \<or> c = 0x2028 \<or>
      c = 0x2029 \<or> c = 0x202F \<or> c = 0x205F \<or> c = 0x3000 \<or> c = 0xFEFF)"

definition trim :: "js_string \<Rightarrow> js_string" where
  "trim s = rev (dropWhile isWhiteSpace (rev (dropWhile isWhiteSpace s)))"

text \<open>\<open>Number.prototype.toString\<close> on a non-negative integer: its decimal digits.\<close>

fun toString :: "nat \<Rightarrow> js_string" where
  "toString n =
     (if n < 10 then [of_nat (48 + n)]
      else toString (n div 10) @ [of_nat (48 + n mod 10)])"

declare toString.simps [simp del]

text \<open>\<open>xs.slice(-n)\<close>: the last \<open>n\<close> elements, all of them when there are fewer.\<close>

definition slice_last :: "nat \<Rightarrow> 'a list \<Rightarrow> 'a list" where
  "slice_last n xs = drop (length xs - n) xs"

subsection \<open>Data\<close>

datatype sender = User | Ai

datatype ai_provider = Gpt | Grok | Deepseek

text \<open>
  Interface \<open>ChatMessage\<close>.  The field \<open>id\<close> is named \<open>id_m\<close> here; a timestamp is the
  number of milliseconds of the \<open>Date\<close>; an optional field that is absent or
  \<open>undefined\<close> is \<open>None\<close>.
\<close>

record chat_message =
  id_m :: js_string
  content :: js_string
  sender :: sender
  timestamp :: nat
  aiProvider :: "ai_provider option"
  department :: "js_string option"

text \<open>The React state of the component, as one render sees it.\<close>

record chat_state =
  messages :: "chat_message list"
  inputMessage :: js_string
  isLoading :: bool
  selectedAI :: ai_provider
  selectedLanguage :: js_string

text \<open>The object passed to \<open>JSON.stringify\<close> as the body of the request.\<close>

record chat_request =
  body_message :: js_string
  body_aiProvider :: ai_provider
  body_language :: js_string
  body_context :: "chat_message list"

text \<open>
  The value \<open>data\<close> that \<open>response.json()\<close> resolves to, with its two fields at the
  types at which \<open>ChatMessage\<close> stores them (\<open>content: string\<close>,
  \<open>department?: string\<close>); a field that the body lacks is \<open>None\<close>.  A body that is a
  number, a string, a boolean or an array has neither field.
\<close>

record chat_data =
  data_response :: "js_string option"
  data_department :: "js_string option"

datatype js_error = FetchError | JsonError | NullAccess

text \<open>
  How the network call settles: \<open>fetch\<close> rejects, \<open>response.json()\<close> rejects, or it
  resolves to \<open>data\<close>, where \<open>None\<close> is the body \<open>null\<close>.
\<close>

datatype fetch_outcome = FetchRejected | JsonRejected | JsonResolved "chat_data option"

text \<open>The two clock readings of a handler run: \<open>Date.now()\<close> and \<open>new Date()\<close>.\<close>

record clock =
  dateNow :: nat
  newDate :: nat

datatype effect =
    SetMessagesAppend chat_message
  | SetInputMessage js_string
  | SetIsLoading bool
  | SetSelectedAI ai_provider
  | SetSelectedLanguage js_string
  | Fetch chat_request
  | OnStatsUpdate
  | ConsoleError js_error

text \<open>
  The widget and what it has done to its surroundings: the state, the renders captured by
  the handler runs that await the network, the requests sent, the number of calls of the
  \<open>onStatsUpdate\<close> callback, and the errors that left a handler.
\<close>

record widget =
  ui :: chat_state
  inflight :: "chat_state list"
  sent :: "chat_request list"
  statsUpdates :: nat
  unhandled :: "js_error list"

subsection \<open>The handler\<close>

definition fallbackText :: js_string where
  "fallbackText =
     js ''I'm sorry, I couldn't process your request right now. Please try again.''"

definition errorText :: js_string where
  "errorText =
     js ''I'm experiencing technical difficulties. Please try again or contact our support team at info@skvbusiness.com''"

definition supportEmail :: js_string where
  "supportEmail = js ''info@skvbusiness.com''"

text \<open>Lines 60 to 86: the guard, the user message, the three setters and the request.\<close>

definition userMessage :: "clock \<Rightarrow> chat_state \<Rightarrow> chat_message" where
  "userMessage clk r =
     \<lparr>id_m = toString (dateNow clk), content = inputMessage r, sender = User,
      timestamp = newDate clk, aiProvider = None, department = None\<rparr>"

definition requestBody :: "chat_state \<Rightarrow> chat_request" where
  "requestBody r =
     \<lparr>body_message = inputMessage r, body_aiProvider = selectedAI r,
      body_language = selectedLanguage r, body_context = slice_last 5 (messages r)\<rparr>"

definition handleSendMessage :: "clock \<Rightarrow> chat_state \<Rightarrow> effect list" where
  "handleSendMessage clk r =
     (if trim (inputMessage r) = [] then []
      else [SetMessagesAppend (userMessage clk r), SetInputMessage [], SetIsLoading True,
            Fetch (requestBody r)])"

text \<open>
  Lines 88 to 106, the rest of the \<open>try\<close> block.  \<open>a || b\<close> is \<open>b\<close> when \<open>a\<close> is
  \<open>undefined\<close> or the empty string.  Reading a property of \<open>null\<close> throws.
\<close>

definition aiMessage :: "clock \<Rightarrow> chat_state \<Rightarrow> chat_data \<Rightarrow> chat_message" where
  "aiMessage clk r data =
     \<lparr>id_m = toString (dateNow clk + 1),
      content = (case data_response data of
                   None \<Rightarrow> fallbackText
                 | Some t \<Rightarrow> if t = [] then fallbackText else t),
      sender = Ai, timestamp = newDate clk, aiProvider = Some (selectedAI r),
      department = data_department data\<rparr>"

definition try_block :: "clock \<Rightarrow> chat_state \<Rightarrow> fetch_outcome \<Rightarrow> js_error + effect list" where
  "try_block clk r out =
     (case out of
        FetchRejected \<Rightarrow> Inl FetchError
      | JsonRejected \<Rightarrow> Inl JsonError
      | JsonResolved None \<Rightarrow> Inl NullAccess
      | JsonResolved (Some data) \<Rightarrow> Inr [SetMessagesAppend (aiMessage clk r data), OnStatsUpdate])"

text \<open>Lines 108 to 117.\<close>

definition errorMessage :: "clock \<Rightarrow> chat_state \<Rightarrow> chat_message" where
  "errorMessage clk r =
     \<lparr>id_m = toString (dateNow clk + 1), content = errorText, sender = Ai,
      timestamp = newDate clk, aiProvider = Some (selectedAI r), department = None\<rparr>"

definition catch_block :: "clock \<Rightarrow> chat_state \<Rightarrow> js_error \<Rightarrow> js_error + effect list" where
  "catch_block clk r e = Inr [ConsoleError e, SetMessagesAppend (errorMessage clk r)]"

text \<open>Lines 118 to 120.\<close>

definition finally_block :: "effect list" where
  "finally_block = [SetIsLoading False]"

text \<open>
  A run of the continuation: the effects performed and the error with which the
  handler's promise rejects, if any.
\<close>

record handler_run =
  effects :: "effect list"
  rejected :: "js_error option"

definition handleSendMessage_resume :: "clock \<Rightarrow> chat_state \<Rightarrow> fetch_outcome \<Rightarrow> handler_run" where
  "handleSendMessage_resume clk r out =
     (case try_block clk r out of
        Inr done \<Rightarrow> \<lparr>effects = done @ finally_block, rejected = None\<rparr>
      | Inl e \<Rightarrow>
          (case catch_block clk r e of
             Inr done \<Rightarrow> \<lparr>effects = done @ finally_block, rejected = None\<rparr>
           | Inl e' \<Rightarrow> \<lparr>effects = finally_block, rejected = Some e'\<rparr>))"

subsection \<open>Applying effects\<close>

text \<open>
  \<open>setMessages\<close> is always called with the updater \<open>prev => [...prev, m]\<close>, which
  appends to the state of the moment.  A \<open>fetch\<close> sends the request and leaves the
  handler run, with the render \<open>r\<close> it belongs to, waiting.
\<close>

fun apply_effect :: "chat_state \<Rightarrow> effect \<Rightarrow> widget \<Rightarrow> widget" where
  "apply_effect r (SetMessagesAppend m) w = w\<lparr>ui := (ui w)\<lparr>messages := messages (ui w) @ [m]\<rparr>\<rparr>"
| "apply_effect r (SetInputMessage v) w = w\<lparr>ui := (ui w)\<lparr>inputMessage := v\<rparr>\<rparr>"
| "apply_effect r (SetIsLoading b) w = w\<lparr>ui := (ui w)\<lparr>isLoading := b\<rparr>\<rparr>"
| "apply_effect r (SetSelectedAI p) w = w\<lparr>ui := (ui w)\<lparr>selectedAI := p\<rparr>\<rparr>"
| "apply_effect r (SetSelectedLanguage l) w = w\<lparr>ui := (ui w)\<lparr>selectedLanguage := l\<rparr>\<rparr>"
| "apply_effect r (Fetch req) w = w\<lparr>sent := sent w @ [req], inflight := inflight w @ [r]\<rparr>"
| "apply_effect r OnStatsUpdate w = w\<lparr>statsUpdates := Suc (statsUpdates w)\<rparr>"
| "apply_effect r (ConsoleError e) w = w"

definition perform :: "chat_state \<Rightarrow> effect list \<Rightarrow> widget \<Rightarrow> widget" where
  "perform r es w = fold (apply_effect r) es w"

text \<open>A call of \<open>handleSendMessage\<close> from the current render.\<close>

definition submit :: "clock \<Rightarrow> widget \<Rightarrow> widget" where
  "submit clk w = perform (ui w) (handleSendMessage clk (ui w)) w"

text \<open>
  The network call of the waiting run number \<open>i\<close> settles: the run leaves the waiting
  list and its continuation is performed.
\<close>

definition settle :: "nat \<Rightarrow> fetch_outcome \<Rightarrow> clock \<Rightarrow> widget \<Rightarrow> widget" where
  "settle i out clk w =
     (if i < length (inflight w) then
        let r = inflight w ! i;
            run = handleSendMessage_resume clk r out;
            w' = perform r (effects run)
                   (w\<lparr>inflight := take i (inflight w) @ drop (Suc i) (inflight w)\<rparr>)
        in (case rejected run of None \<Rightarrow> w' | Some e \<Rightarrow> w'\<lparr>unhandled := unhandled w' @ [e]\<rparr>)
      else w)"

subsection \<open>Events\<close>

definition quickActions :: "js_string list" where
  "quickActions =
     [js ''Business Setup in Dubai'', js ''VAT Registration'',
      js ''Employment Visa Requirements'', js ''Golden Visa Eligibility'',
      js ''Ejari Registration'', js ''Trade License Renewal'',
      js ''Bank Account Opening'', js ''Document Attestation'']"

datatype key = Enter | OtherKey

text \<open>
  The events the rendered controls deliver.  The input field is rendered with
  \<open>disabled={isLoading}\<close> and the send button with
  \<open>disabled={!inputMessage.trim() || isLoading}\<close>; a disabled control delivers no event.
  The selectors and the quick-question buttons are never disabled.
\<close>

datatype event =
    InputChange js_string
  | InputKeyPress key clock
  | SendClick clock
  | QuickAction nat
  | SelectAI ai_provider
  | SelectLanguage js_string
  | Settle nat fetch_outcome clock

fun dispatch :: "event \<Rightarrow> widget \<Rightarrow> widget" where
  "dispatch (InputChange v) w =
     (if isLoading (ui w) then w else perform (ui w) [SetInputMessage v] w)"
| "dispatch (InputKeyPress k clk) w =
     (if isLoading (ui w) then w else if k = Enter then submit clk w else w)"
| "dispatch (SendClick clk) w =
     (if trim (inputMessage (ui w)) = [] \<or> isLoading (ui w) then w else submit clk w)"
| "dispatch (QuickAction i) w =
     (if i < length quickActions then perform (ui w) [SetInputMessage (quickActions ! i)] w
      else w)"
| "dispatch (SelectAI p) w = perform (ui w) [SetSelectedAI p] w"
| "dispatch (SelectLanguage l) w = perform (ui w) [SetSelectedLanguage l] w"
| "dispatch (Settle i out clk) w = settle i out clk w"

definition run :: "event list \<Rightarrow> widget \<Rightarrow> widget" where
  "run es w = fold dispatch es w"

fun user_event :: "event \<Rightarrow> bool" where
  "user_event (Settle i out clk) = False"
| "user_event e = True"

text \<open>Lines 25 to 37: the state of the first render, created at time \<open>t\<close>.\<close>

definition greeting :: "nat \<Rightarrow> chat_message" where
  "greeting t =
     \<lparr>id_m = js ''1'',
      content = js ''Hello! I'm SKV.ChatGB, your AI assistant for UAE business services. I can help you with business setup, tax services, visa applications, document management, and more. How can I assist you today?'',
      sender = Ai, timestamp = t, aiProvider = Some Gpt, department = None\<rparr>"

definition initial :: "nat \<Rightarrow> widget" where
  "initial t =
     \<lparr>ui = \<lparr>messages = [greeting t], inputMessage = [], isLoading = False,
            selectedAI = Gpt, selectedLanguage = js ''en''\<rparr>,
      inflight = [], sent = [], statsUpdates = 0, unhandled = []\<rparr>"

inductive reachable :: "widget \<Rightarrow> bool" where
  reachable_initial: "reachable (initial t)"
| reachable_dispatch: "reachable w \<Longrightarrow> reachable (dispatch e w)"

section \<open>Properties\<close>

subsection \<open>Auxiliary facts\<close>

lemma dropWhile_all_Nil: "(\<forall>x\<in>set (dropWhile P xs). P x) \<longleftrightarrow> list_all P xs"
  by (induction xs) auto

lemma trim_Nil_iff: "trim s = [] \<longleftrightarrow> list_all isWhiteSpace s"
  by (simp add: trim_def dropWhile_all_Nil)

lemma handleSendMessage_blank:
  "list_all isWhiteSpace (inputMessage r) \<Longrightarrow> handleSendMessage clk r = []"
  by (simp add: handleSendMessage_def trim_Nil_iff)

lemma handleSendMessage_nonblank:
  "\<not> list_all isWhiteSpace (inputMessage r) \<Longrightarrow>
   handleSendMessage clk r =
     [SetMessagesAppend (userMessage clk r), SetInputMessage [], SetIsLoading True,
      Fetch (requestBody r)]"
  by (simp add: handleSendMessage_def trim_Nil_iff)

lemma submit_nonblank:
  "\<not> list_all isWhiteSpace (inputMessage (ui w)) \<Longrightarrow>
   submit clk w =
     w\<lparr>ui := (ui w)\<lparr>messages := messages (ui w) @ [userMessage clk (ui w)],
                    inputMessage := [], isLoading := True\<rparr>,
       sent := sent w @ [requestBody (ui w)],
       inflight := inflight w @ [ui w]\<rparr>"
  by (simp add: submit_def handleSendMessage_nonblank perform_def)

lemma submit_blank:
  "list_all isWhiteSpace (inputMessage (ui w)) \<Longrightarrow> submit clk w = w"
  by (simp add: submit_def handleSendMessage_blank perform_def)

lemma user_event_while_loading:
  "user_event e \<Longrightarrow> isLoading (ui w) \<Longrightarrow>
   messages (ui (dispatch e w)) = messages (ui w) \<and> isLoading (ui (dispatch e w)) \<and>
   inflight (dispatch e w) = inflight w \<and> sent (dispatch e w) = sent w \<and>
   statsUpdates (dispatch e w) = statsUpdates w \<and> unhandled (dispatch e w) = unhandled w"
  by (cases e) (simp_all add: perform_def)

lemma user_events_while_loading:
  "\<forall>e\<in>set es. user_event e \<Longrightarrow> isLoading (ui w) \<Longrightarrow>
   messages (ui (run es w)) = messages (ui w) \<and> isLoading (ui (run es w)) \<and>
   inflight (run es w) = inflight w \<and> sent (run es w) = sent w \<and>
   statsUpdates (run es w) = statsUpdates w \<and> unhandled (run es w) = unhandled w"
proof (induction es arbitrary: w)
  case Nil
  then show ?case by (simp add: run_def)
next
  case (Cons e es)
  have step: "run (e # es) w = run es (dispatch e w)"
    by (simp add: run_def)
  from Cons.prems have e: "user_event e" and es: "\<forall>e\<in>set es. user_event e"
    by simp_all
  note d = user_event_while_loading [OF e Cons.prems(2)]
  from d have "isLoading (ui (dispatch e w))" by simp
  from Cons.IH [OF es this] d show ?case
    by (simp add: step)
qed

lemma resume_resolved:
  "handleSendMessage_resume clk r (JsonResolved (Some data)) =
     \<lparr>effects = [SetMessagesAppend (aiMessage clk r data), OnStatsUpdate, SetIsLoading False],
      rejected = None\<rparr>"
  by (simp add: handleSendMessage_resume_def try_block_def finally_block_def)

lemma resume_failed:
  "\<forall>data. out \<noteq> JsonResolved (Some data) \<Longrightarrow>
   \<exists>e. handleSendMessage_resume clk r out =
     \<lparr>effects = [ConsoleError e, SetMessagesAppend (errorMessage clk r), SetIsLoading False],
      rejected = None\<rparr>"
  by (cases out)
     (auto simp: handleSendMessage_resume_def try_block_def catch_block_def finally_block_def
           split: option.splits)

lemma settle_resolved:
  "i < length (inflight w) \<Longrightarrow>
   settle i (JsonResolved (Some data)) clk w =
     w\<lparr>inflight := take i (inflight w) @ drop (Suc i) (inflight w),
       ui := (ui w)\<lparr>messages := messages (ui w) @ [aiMessage clk (inflight w ! i) data],
                    isLoading := False\<rparr>,
       statsUpdates := Suc (statsUpdates w)\<rparr>"
  by (simp add: settle_def resume_resolved perform_def Let_def)

lemma settle_failed:
  assumes "i < length (inflight w)" and "\<forall>data. out \<noteq> JsonResolved (Some data)"
  shows "settle i out clk w =
     w\<lparr>inflight := take i (inflight w) @ drop (Suc i) (inflight w),
       ui := (ui w)\<lparr>messages := messages (ui w) @ [errorMessage clk (inflight w ! i)],
                    isLoading := False\<rparr>\<rparr>"
proof -
  from resume_failed [OF assms(2)] obtain e where
    "handleSendMessage_resume clk (inflight w ! i) out =
       \<lparr>effects = [ConsoleError e, SetMessagesAppend (errorMessage clk (inflight w ! i)),
                   SetIsLoading False],
        rejected = None\<rparr>"
    by blast
  with assms(1) show ?thesis
    by (simp add: settle_def perform_def Let_def)
qed

lemma failed_cases:
  "(\<forall>data. out \<noteq> JsonResolved (Some data)) \<longleftrightarrow>
   out = FetchRejected \<or> out = JsonRejected \<or> out = JsonResolved None"
  by (cases out) auto

lemma settle_prefix: "prefix (messages (ui w)) (messages (ui (settle i out clk w)))"
proof (cases "i < length (inflight w)")
  case False
  then show ?thesis by (simp add: settle_def)
next
  case True
  show ?thesis
  proof (cases "\<exists>data. out = JsonResolved (Some data)")
    case True
    with \<open>i < length (inflight w)\<close> show ?thesis
      by (auto simp: settle_resolved)
  next
    case False
    then have "\<forall>data. out \<noteq> JsonResolved (Some data)" by simp
    from settle_failed [OF \<open>i < length (inflight w)\<close> this] show ?thesis
      by simp
  qed
qed

lemma submit_prefix: "prefix (messages (ui w)) (messages (ui (submit clk w)))"
  by (cases "list_all isWhiteSpace (inputMessage (ui w))")
     (simp_all add: submit_blank submit_nonblank)

lemma dispatch_prefix: "prefix (messages (ui w)) (messages (ui (dispatch e w)))"
  by (cases e) (simp_all add: perform_def settle_prefix submit_prefix)

lemma run_prefix: "prefix (messages (ui w)) (messages (ui (run es w)))"
proof (induction es arbitrary: w)
  case Nil
  show ?case by (simp add: run_def)
next
  case (Cons e es)
  have "prefix (messages (ui w)) (messages (ui (dispatch e w)))"
    by (rule dispatch_prefix)
  also have "prefix (messages (ui (dispatch e w))) (messages (ui (run es (dispatch e w))))"
    by (rule Cons.IH)
  finally show ?case by (simp add: run_def)
qed

lemma reachable_inflight:
  "reachable w \<Longrightarrow> inflight w = [] \<and> \<not> isLoading (ui w) \<or> length (inflight w) = 1 \<and> isLoading (ui w)"
proof (induction rule: reachable.induct)
  case (reachable_initial t)
  show ?case by (simp add: initial_def)
next
  case (reachable_dispatch w e)
  show ?case
  proof (cases e)
    case (InputChange v)
    with reachable_dispatch.IH show ?thesis by (auto simp: perform_def)
  next
    case (InputKeyPress k clk)
    with reachable_dispatch.IH show ?thesis
      by (cases "list_all isWhiteSpace (inputMessage (ui w))")
         (auto simp: submit_blank submit_nonblank)
  next
    case (SendClick clk)
    with reachable_dispatch.IH show ?thesis
      by (cases "list_all isWhiteSpace (inputMessage (ui w))")
         (auto simp: submit_blank submit_nonblank)
  next
    case (QuickAction i)
    with reachable_dispatch.IH show ?thesis by (auto simp: perform_def)
  next
    case (SelectAI p)
    with reachable_dispatch.IH show ?thesis by (auto simp: perform_def)
  next
    case (SelectLanguage l)
    with reachable_dispatch.IH show ?thesis by (auto simp: perform_def)
  next
    case (Settle i out clk)
    show ?thesis
    proof (cases "i < length (inflight w)")
      case False
      with Settle reachable_dispatch.IH show ?thesis by (simp add: settle_def)
    next
      case True
      with reachable_dispatch.IH have one: "length (inflight w) = 1" and i: "i = 0"
        by auto
      show ?thesis
      proof (cases "\<exists>data. out = JsonResolved (Some data)")
        case True
        with Settle one i show ?thesis by (auto simp: settle_resolved)
      next
        case False
        then have "\<forall>data. out \<noteq> JsonResolved (Some data)" by simp
        from settle_failed [OF \<open>i < length (inflight w)\<close> this] Settle one i show ?thesis
          by simp
      qed
    qed
  qed
qed

lemma slice_last_length: "length (slice_last n xs) = min n (length xs)"
  by (simp add: slice_last_def)

lemma slice_last_suffix: "suffix (slice_last n xs) xs"
  by (simp add: slice_last_def suffix_drop)

lemma errorText_email: "sublist supportEmail errorText"
proof -
  have "errorText =
    js ''I'm experiencing technical difficulties. Please try again or contact our support team at '' @ supportEmail"
    by (simp add: errorText_def supportEmail_def js_def)
  then have "sublist supportEmail errorText \<longleftrightarrow>
    sublist supportEmail (js ''I'm experiencing technical difficulties. Please try again or contact our support team at '' @ supportEmail)"
    by (rule arg_cong)
  then show ?thesis by (simp only: sublist_append_leftI)
qed

lemma resume_last: "last (effects (handleSendMessage_resume clk r out)) = SetIsLoading False"
proof (cases "\<exists>data. out = JsonResolved (Some data)")
  case True
  then show ?thesis by (auto simp: resume_resolved)
next
  case False
  then have "\<forall>data. out \<noteq> JsonResolved (Some data)" by simp
  from resume_failed [OF this, of clk r] show ?thesis by auto
qed

lemma settle_not_loading:
  "i < length (inflight w) \<Longrightarrow>
   \<not> isLoading (ui (settle i out clk w)) \<and>
   inflight (settle i out clk w) = take i (inflight w) @ drop (Suc i) (inflight w)"
proof (cases "\<exists>data. out = JsonResolved (Some data)")
  case True
  moreover assume "i < length (inflight w)"
  ultimately show ?thesis by (auto simp: settle_resolved)
next
  case False
  then have failed: "\<forall>data. out \<noteq> JsonResolved (Some data)" by simp
  assume "i < length (inflight w)"
  from settle_failed [OF this failed] show ?thesis by simp
qed

lemma run_Cons: "run (e # es) w = run es (dispatch e w)"
  by (simp add: run_def)

lemma run_Nil: "run [] w = w"
  by (simp add: run_def)

lemma run_append: "run (es @ es') w = run es' (run es w)"
  by (simp add: run_def)

lemma input_change_enabled:
  "\<not> isLoading (ui w) \<Longrightarrow> dispatch (InputChange v) w = w\<lparr>ui := (ui w)\<lparr>inputMessage := v\<rparr>\<rparr>"
  by (simp add: perform_def)

lemma input_change_fields:
  "\<not> isLoading (ui w) \<Longrightarrow>
   inputMessage (ui (dispatch (InputChange v) w)) = v \<and>
   messages (ui (dispatch (InputChange v) w)) = messages (ui w)"
  by (simp add: perform_def)

lemma sendclick_enabled:
  "\<not> isLoading (ui w) \<Longrightarrow> \<not> list_all isWhiteSpace (inputMessage (ui w)) \<Longrightarrow>
   dispatch (SendClick clk) w = submit clk w"
  by (simp add: trim_Nil_iff)

lemma turn_resolved:
  assumes idle: "\<not> isLoading (ui w)" "inflight w = []"
    and v: "\<not> list_all isWhiteSpace v"
    and t: "t \<noteq> []"
  shows "map content (messages (ui (run [InputChange v, SendClick c1,
             Settle 0 (JsonResolved (Some \<lparr>data_response = Some t, data_department = d\<rparr>)) c2] w))) =
           map content (messages (ui w)) @ [v, t] \<and>
         \<not> isLoading (ui (run [InputChange v, SendClick c1,
             Settle 0 (JsonResolved (Some \<lparr>data_response = Some t, data_department = d\<rparr>)) c2] w)) \<and>
         inflight (run [InputChange v, SendClick c1,
             Settle 0 (JsonResolved (Some \<lparr>data_response = Some t, data_department = d\<rparr>)) c2] w) = []"
proof -
  let ?w1 = "w\<lparr>ui := (ui w)\<lparr>inputMessage := v\<rparr>\<rparr>"
  let ?w2 = "submit c1 ?w1"
  let ?data = "\<lparr>data_response = Some t, data_department = d\<rparr>"
  have d1: "dispatch (InputChange v) w = ?w1"
    by (rule input_change_enabled [OF idle(1)])
  have enabled: "\<not> isLoading (ui ?w1)"
    and nonblank: "\<not> list_all isWhiteSpace (inputMessage (ui ?w1))"
    using idle v by simp_all
  have d2: "dispatch (SendClick c1) ?w1 = ?w2"
    by (rule sendclick_enabled [OF enabled nonblank])
  from submit_nonblank [OF nonblank, of c1]
  have msgs2: "messages (ui ?w2) = messages (ui w) @ [userMessage c1 (ui ?w1)]"
    and waiting: "inflight ?w2 = [ui ?w1]"
    using idle by simp_all
  from waiting have i: "0 < length (inflight ?w2)"
    by simp
  have "run [InputChange v, SendClick c1, Settle 0 (JsonResolved (Some ?data)) c2] w =
        settle 0 (JsonResolved (Some ?data)) c2 ?w2"
    by (simp only: run_Cons run_Nil d1 d2 dispatch.simps(7))
  then show ?thesis
    using t by (simp add: settle_resolved [OF i] msgs2 waiting userMessage_def aiMessage_def)
qed

lemma last_five_of_seven:
  assumes "suffix ctx ms" and "length ctx = min 5 (length ms)"
    and "map f ms = [c0, c1, c2, c3, c4, c5, c6]"
  shows "map f ctx = [c2, c3, c4, c5, c6]"
proof -
  from assms(3) have "length (map f ms) = 7"
    by simp
  then have seven: "length ms = 7"
    by simp
  with assms(2) have five: "length ctx = 5"
    by simp
  from assms(1) obtain older where split: "ms = older @ ctx"
    by (auto simp: suffix_def)
  with seven five have "length older = 2"
    by simp
  with split have "ctx = drop 2 ms"
    by simp
  then have "map f ctx = drop 2 (map f ms)"
    by (simp add: drop_map)
  with assms(3) show ?thesis
    by simp
qed

subsection \<open>Replies\<close>

text \<open>
  C1.  A submission is a call of \<open>submit\<close> with input that is not blank.  Whatever the
  user does while the call is outstanding (choosing another provider included), when the
  call resolves to a body with \<open>response\<close> \<open>t\<close> (not the empty string, as \<open>"X"\<close> is not)
  and \<open>department\<close> \<open>d\<close>, one assistant message is appended; its content is \<open>t\<close>, its
  department is \<open>d\<close> and its provider is the one that was selected when \<open>submit\<close> was
  called.
\<close>

theorem reply_becomes_assistant_message:
  assumes nonblank: "\<not> list_all isWhiteSpace (inputMessage (ui w))"
    and user: "\<forall>e\<in>set es. user_event e"
    and t: "t \<noteq> []"
  shows "\<exists>m. messages (ui (settle (length (inflight w))
                 (JsonResolved (Some \<lparr>data_response = Some t, data_department = Some d\<rparr>)) clk'
                 (run es (submit clk w)))) =
               messages (ui (run es (submit clk w))) @ [m] \<and>
             content m = t \<and> department m = Some d \<and>
             aiProvider m = Some (selectedAI (ui w)) \<and> sender m = Ai"
proof -
  let ?w1 = "submit clk w"
  let ?w2 = "run es ?w1"
  let ?data = "\<lparr>data_response = Some t, data_department = Some d\<rparr>"
  have loading: "isLoading (ui ?w1)"
    by (simp add: submit_nonblank [OF nonblank])
  have "inflight ?w2 = inflight ?w1"
    using user_events_while_loading [OF user loading] by simp
  then have waiting: "inflight ?w2 = inflight w @ [ui w]"
    by (simp add: submit_nonblank [OF nonblank])
  then have i: "length (inflight w) < length (inflight ?w2)"
    and r: "inflight ?w2 ! length (inflight w) = ui w"
    by simp_all
  let ?m = "aiMessage clk' (ui w) ?data"
  have "messages (ui (settle (length (inflight w)) (JsonResolved (Some ?data)) clk' ?w2)) =
        messages (ui ?w2) @ [?m]"
    by (simp add: settle_resolved [OF i] r)
  moreover have "content ?m = t \<and> department ?m = Some d \<and>
      aiProvider ?m = Some (selectedAI (ui w)) \<and> sender ?m = Ai"
    using t by (simp add: aiMessage_def)
  ultimately show ?thesis by blast
qed

text \<open>
  The instance with the reply \<open>{response: "X", department: "Tax"}\<close>: the submission is
  made with the initial provider, and the provider is changed while the call is
  outstanding.
\<close>

theorem reply_becomes_assistant_message_witness:
  "\<not> list_all isWhiteSpace (inputMessage (ui (dispatch (InputChange (js ''hello'')) (initial 0)))) \<and>
   user_event (SelectAI Grok) \<and> user_event (QuickAction 1) \<and> js ''X'' \<noteq> [] \<and>
   (\<exists>m. messages (ui (settle (length (inflight (dispatch (InputChange (js ''hello'')) (initial 0))))
                 (JsonResolved (Some \<lparr>data_response = Some (js ''X''),
                                      data_department = Some (js ''Tax'')\<rparr>))
                 \<lparr>dateNow = 9, newDate = 9\<rparr>
                 (run [SelectAI Grok, QuickAction 1]
                    (submit \<lparr>dateNow = 5, newDate = 5\<rparr>
                       (dispatch (InputChange (js ''hello'')) (initial 0)))))) =
               messages (ui (run [SelectAI Grok, QuickAction 1]
                    (submit \<lparr>dateNow = 5, newDate = 5\<rparr>
                       (dispatch (InputChange (js ''hello'')) (initial 0))))) @ [m] \<and>
             content m = js ''X'' \<and> department m = Some (js ''Tax'') \<and>
             aiProvider m = Some Gpt \<and> sender m = Ai)"
proof -
  have h1: "\<not> list_all isWhiteSpace (inputMessage (ui (dispatch (InputChange (js ''hello'')) (initial 0))))"
    by (simp add: initial_def perform_def js_def isWhiteSpace_def)
  have h2: "\<forall>e\<in>set [SelectAI Grok, QuickAction 1]. user_event e"
    by simp
  have h3: "js ''X'' \<noteq> []"
    by (simp add: js_def)
  have u: "user_event (SelectAI Grok) \<and> user_event (QuickAction 1)"
    by simp
  have sel: "selectedAI (ui (dispatch (InputChange (js ''hello'')) (initial 0))) = Gpt"
    by (simp add: initial_def perform_def)
  from reply_becomes_assistant_message
         [OF h1 h2 h3, of "js ''Tax''" "\<lparr>dateNow = 9, newDate = 9\<rparr>" "\<lparr>dateNow = 5, newDate = 5\<rparr>"]
  have "\<exists>m. messages (ui (settle (length (inflight (dispatch (InputChange (js ''hello'')) (initial 0))))
                 (JsonResolved (Some \<lparr>data_response = Some (js ''X''),
                                      data_department = Some (js ''Tax'')\<rparr>))
                 \<lparr>dateNow = 9, newDate = 9\<rparr>
                 (run [SelectAI Grok, QuickAction 1]
                    (submit \<lparr>dateNow = 5, newDate = 5\<rparr>
                       (dispatch (InputChange (js ''hello'')) (initial 0)))))) =
               messages (ui (run [SelectAI Grok, QuickAction 1]
                    (submit \<lparr>dateNow = 5, newDate = 5\<rparr>
                       (dispatch (InputChange (js ''hello'')) (initial 0))))) @ [m] \<and>
             content m = js ''X'' \<and> department m = Some (js ''Tax'') \<and>
             aiProvider m = Some Gpt \<and> sender m = Ai"
    by (simp only: sel)
  with h1 u h3 show ?thesis
    by blast
qed

subsection \<open>Failures\<close>

text \<open>
  C2.  When the call of a waiting run fails (\<open>fetch\<close> rejects, \<open>response.json()\<close>
  rejects, or the body is \<open>null\<close> so that reading \<open>data.response\<close> throws), exactly one
  message is appended; it is an assistant message whose content contains
  \<open>info@skvbusiness.com\<close>.  The handler's promise does not reject and nothing is added to
  the unhandled errors, \<open>onStatsUpdate\<close> is not called, and \<open>isLoading\<close> is false
  afterwards.
\<close>

theorem failure_appends_one_error_message:
  assumes i: "i < length (inflight w)"
    and out: "out = FetchRejected \<or> out = JsonRejected \<or> out = JsonResolved None"
  shows "\<exists>m. messages (ui (settle i out clk w)) = messages (ui w) @ [m] \<and>
             sender m = Ai \<and> sublist supportEmail (content m) \<and>
             rejected (handleSendMessage_resume clk (inflight w ! i) out) = None \<and>
             unhandled (settle i out clk w) = unhandled w \<and>
             OnStatsUpdate \<notin> set (effects (handleSendMessage_resume clk (inflight w ! i) out)) \<and>
             statsUpdates (settle i out clk w) = statsUpdates w \<and>
             \<not> isLoading (ui (settle i out clk w))"
proof -
  from out have failed: "\<forall>data. out \<noteq> JsonResolved (Some data)"
    by (simp add: failed_cases)
  let ?m = "errorMessage clk (inflight w ! i)"
  note s = settle_failed [OF i failed, of clk]
  have "messages (ui (settle i out clk w)) = messages (ui w) @ [?m]"
    by (simp add: s)
  moreover have "sender ?m = Ai"
    by (simp add: errorMessage_def)
  moreover have "sublist supportEmail (content ?m)"
    by (simp add: errorMessage_def errorText_email)
  moreover from resume_failed [OF failed, of clk "inflight w ! i"]
  have "rejected (handleSendMessage_resume clk (inflight w ! i) out) = None"
    and "OnStatsUpdate \<notin> set (effects (handleSendMessage_resume clk (inflight w ! i) out))"
    by auto
  moreover have "unhandled (settle i out clk w) = unhandled w"
    and "statsUpdates (settle i out clk w) = statsUpdates w"
    and "\<not> isLoading (ui (settle i out clk w))"
    by (simp_all add: s)
  ultimately show ?thesis by blast
qed

text \<open>A rejected \<open>fetch\<close> after the second quick question was submitted.\<close>

theorem failure_appends_one_error_message_witness:
  "0 < length (inflight (submit \<lparr>dateNow = 3, newDate = 3\<rparr> (dispatch (QuickAction 1) (initial 0)))) \<and>
   (\<exists>m. messages (ui (settle 0 FetchRejected \<lparr>dateNow = 7, newDate = 8\<rparr>
                (submit \<lparr>dateNow = 3, newDate = 3\<rparr> (dispatch (QuickAction 1) (initial 0))))) =
         messages (ui (submit \<lparr>dateNow = 3, newDate = 3\<rparr> (dispatch (QuickAction 1) (initial 0)))) @ [m] \<and>
         sender m = Ai \<and> sublist supportEmail (content m) \<and>
         \<not> isLoading (ui (settle 0 FetchRejected \<lparr>dateNow = 7, newDate = 8\<rparr>
                (submit \<lparr>dateNow = 3, newDate = 3\<rparr> (dispatch (QuickAction 1) (initial 0))))))"
proof -
  let ?w = "submit \<lparr>dateNow = 3, newDate = 3\<rparr> (dispatch (QuickAction 1) (initial 0))"
  have h: "0 < length (inflight ?w)"
    by (simp add: submit_def handleSendMessage_def perform_def initial_def quickActions_def
          trim_def js_def isWhiteSpace_def)
  from failure_appends_one_error_message [OF h, of FetchRejected "\<lparr>dateNow = 7, newDate = 8\<rparr>"] h
  show ?thesis by blast
qed

subsection \<open>Submitting\<close>

text \<open>
  C3.  A call of \<open>handleSendMessage\<close> with input that is empty or all white space
  performs no effect: the widget is unchanged (no message, no request, \<open>isLoading\<close> as
  it was), whether the call comes from the Enter key or from the send button.
\<close>

theorem blank_submit_is_noop:
  assumes blank: "list_all isWhiteSpace (inputMessage (ui w))"
  shows "handleSendMessage clk (ui w) = [] \<and> submit clk w = w \<and>
         dispatch (InputKeyPress Enter clk) w = w \<and> dispatch (SendClick clk) w = w"
  using blank by (simp add: handleSendMessage_blank submit_blank)

text \<open>The input is a space, a tab and a no-break space.\<close>

theorem blank_submit_is_noop_witness:
  "list_all isWhiteSpace (inputMessage (ui (dispatch (InputChange [0x20, 0x09, 0xA0]) (initial 0)))) \<and>
   submit \<lparr>dateNow = 1, newDate = 1\<rparr> (dispatch (InputChange [0x20, 0x09, 0xA0]) (initial 0)) =
     dispatch (InputChange [0x20, 0x09, 0xA0]) (initial 0)"
proof -
  have h: "list_all isWhiteSpace (inputMessage (ui (dispatch (InputChange [0x20, 0x09, 0xA0]) (initial 0))))"
    by (simp add: initial_def perform_def isWhiteSpace_def)
  from blank_submit_is_noop [OF h] h show ?thesis by blast
qed

text \<open>
  C4.  A call with input that is not blank appends exactly one message in its synchronous
  part, the user message with the input as content, and this effect comes before the
  request is even made; the call is then outstanding.  Whatever the user does meanwhile
  and however the call settles, the assistant message of this submission (reply or error)
  comes directly after the user message.
\<close>

theorem nonblank_submit_appends_user_message:
  assumes nonblank: "\<not> list_all isWhiteSpace (inputMessage (ui w))"
  shows "\<exists>m. handleSendMessage clk (ui w) =
               [SetMessagesAppend m, SetInputMessage [], SetIsLoading True,
                Fetch (requestBody (ui w))] \<and>
             sender m = User \<and> content m = inputMessage (ui w) \<and>
             messages (ui (submit clk w)) = messages (ui w) @ [m] \<and>
             inflight (submit clk w) = inflight w @ [ui w] \<and>
             (\<forall>es out clk'. (\<forall>e\<in>set es. user_event e) \<longrightarrow>
                (\<exists>a. messages (ui (settle (length (inflight w)) out clk' (run es (submit clk w)))) =
                       messages (ui w) @ [m, a] \<and> sender a = Ai))"
proof -
  let ?m = "userMessage clk (ui w)"
  let ?w1 = "submit clk w"
  note s = submit_nonblank [OF nonblank, of clk]
  have later: "\<exists>a. messages (ui (settle (length (inflight w)) out clk' (run es ?w1))) =
                 messages (ui w) @ [?m, a] \<and> sender a = Ai"
    if user: "\<forall>e\<in>set es. user_event e" for es out clk'
  proof -
    have "isLoading (ui ?w1)" by (simp add: s)
    from user_events_while_loading [OF user this]
    have msgs: "messages (ui (run es ?w1)) = messages (ui w) @ [?m]"
      and waiting: "inflight (run es ?w1) = inflight w @ [ui w]"
      by (simp_all add: s)
    from waiting have i: "length (inflight w) < length (inflight (run es ?w1))"
      by simp
    show ?thesis
    proof (cases "\<exists>data. out = JsonResolved (Some data)")
      case True
      then obtain data where "out = JsonResolved (Some data)" ..
      then show ?thesis
        by (simp add: settle_resolved [OF i] msgs aiMessage_def)
    next
      case False
      then have "\<forall>data. out \<noteq> JsonResolved (Some data)" by simp
      from settle_failed [OF i this] show ?thesis
        by (simp add: msgs errorMessage_def)
    qed
  qed
  have "handleSendMessage clk (ui w) =
          [SetMessagesAppend ?m, SetInputMessage [], SetIsLoading True, Fetch (requestBody (ui w))]"
    by (rule handleSendMessage_nonblank [OF nonblank])
  moreover have "sender ?m = User \<and> content ?m = inputMessage (ui w)"
    by (simp add: userMessage_def)
  moreover have "messages (ui ?w1) = messages (ui w) @ [?m]"
    and "inflight ?w1 = inflight w @ [ui w]"
    by (simp_all add: s)
  ultimately show ?thesis using later by blast
qed

text \<open>The input \<open>VAT?\<close> typed into the first render.\<close>

theorem nonblank_submit_appends_user_message_witness:
  "\<not> list_all isWhiteSpace (inputMessage (ui (dispatch (InputChange (js ''VAT?'')) (initial 0)))) \<and>
   (\<exists>m. sender m = User \<and>
         content m = inputMessage (ui (dispatch (InputChange (js ''VAT?'')) (initial 0))) \<and>
         messages (ui (submit \<lparr>dateNow = 2, newDate = 2\<rparr>
                         (dispatch (InputChange (js ''VAT?'')) (initial 0)))) =
           messages (ui (dispatch (InputChange (js ''VAT?'')) (initial 0))) @ [m])"
proof -
  have h: "\<not> list_all isWhiteSpace (inputMessage (ui (dispatch (InputChange (js ''VAT?'')) (initial 0))))"
    by (simp add: initial_def perform_def js_def isWhiteSpace_def)
  from nonblank_submit_appends_user_message [OF h, of "\<lparr>dateNow = 2, newDate = 2\<rparr>"] h
  show ?thesis by blast
qed

subsection \<open>The request\<close>

text \<open>
  C5.  The request of a submission carries as \<open>context\<close> at most five messages (five,
  or all of them when the conversation has fewer), and they are a contiguous tail of the
  conversation of the render that submitted, in the same order.
\<close>

theorem context_at_most_five_in_order:
  assumes nonblank: "\<not> list_all isWhiteSpace (inputMessage (ui w))"
  shows "\<exists>req. sent (submit clk w) = sent w @ [req] \<and>
               length (body_context req) \<le> 5 \<and>
               length (body_context req) = min 5 (length (messages (ui w))) \<and>
               suffix (body_context req) (messages (ui w))"
proof -
  let ?req = "requestBody (ui w)"
  have "sent (submit clk w) = sent w @ [?req]"
    by (simp add: submit_nonblank [OF nonblank])
  moreover have "length (body_context ?req) = min 5 (length (messages (ui w)))"
    by (simp add: requestBody_def slice_last_length)
  moreover have "suffix (body_context ?req) (messages (ui w))"
    by (simp add: requestBody_def slice_last_suffix)
  ultimately show ?thesis by auto
qed

text \<open>
  Three turns from the first render leave a conversation of seven messages; the request of
  the fourth submission carries the last five of them, in their order.
\<close>

theorem context_at_most_five_in_order_witness:
  "(let w = run [InputChange (js ''a''), SendClick \<lparr>dateNow = 1, newDate = 1\<rparr>,
                 Settle 0 (JsonResolved (Some \<lparr>data_response = Some (js ''A''), data_department = None\<rparr>))
                   \<lparr>dateNow = 2, newDate = 2\<rparr>,
                 InputChange (js ''b''), SendClick \<lparr>dateNow = 3, newDate = 3\<rparr>,
                 Settle 0 (JsonResolved (Some \<lparr>data_response = Some (js ''B''), data_department = None\<rparr>))
                   \<lparr>dateNow = 4, newDate = 4\<rparr>,
                 InputChange (js ''c''), SendClick \<lparr>dateNow = 5, newDate = 5\<rparr>,
                 Settle 0 (JsonResolved (Some \<lparr>data_response = Some (js ''C''), data_department = None\<rparr>))
                   \<lparr>dateNow = 6, newDate = 6\<rparr>,
                 InputChange (js ''d'')] (initial 0)
    in \<not> list_all isWhiteSpace (inputMessage (ui w)) \<and>
       map content (messages (ui w)) =
         [content (greeting 0), js ''a'', js ''A'', js ''b'', js ''B'', js ''c'', js ''C''] \<and>
       (\<exists>req. sent (submit \<lparr>dateNow = 7, newDate = 7\<rparr> w) = sent w @ [req] \<and>
              length (body_context req) \<le> 5 \<and>
              suffix (body_context req) (messages (ui w)) \<and>
              map content (body_context req) = [js ''A'', js ''b'', js ''B'', js ''c'', js ''C'']))"
proof -
  let ?t1 = "[InputChange (js ''a''), SendClick \<lparr>dateNow = 1, newDate = 1\<rparr>,
              Settle 0 (JsonResolved (Some \<lparr>data_response = Some (js ''A''), data_department = None\<rparr>))
                \<lparr>dateNow = 2, newDate = 2\<rparr>]"
  let ?t2 = "[InputChange (js ''b''), SendClick \<lparr>dateNow = 3, newDate = 3\<rparr>,
              Settle 0 (JsonResolved (Some \<lparr>data_response = Some (js ''B''), data_department = None\<rparr>))
                \<lparr>dateNow = 4, newDate = 4\<rparr>]"
  let ?t3 = "[InputChange (js ''c''), SendClick \<lparr>dateNow = 5, newDate = 5\<rparr>,
              Settle 0 (JsonResolved (Some \<lparr>data_response = Some (js ''C''), data_department = None\<rparr>))
                \<lparr>dateNow = 6, newDate = 6\<rparr>]"
  let ?w1 = "run ?t1 (initial 0)"
  let ?w2 = "run ?t2 ?w1"
  let ?w3 = "run ?t3 ?w2"
  let ?w = "dispatch (InputChange (js ''d'')) ?w3"
  have a: "\<not> list_all isWhiteSpace (js ''a'')" "js ''A'' \<noteq> []"
    and b: "\<not> list_all isWhiteSpace (js ''b'')" "js ''B'' \<noteq> []"
    and c: "\<not> list_all isWhiteSpace (js ''c'')" "js ''C'' \<noteq> []"
    and d: "\<not> list_all isWhiteSpace (js ''d'')"
    by (simp_all add: js_def isWhiteSpace_def)
  have w0: "\<not> isLoading (ui (initial 0))" "inflight (initial 0) = []"
    and m0: "map content (messages (ui (initial 0))) = [content (greeting 0)]"
    by (simp_all add: initial_def)
  note s1 = turn_resolved [OF w0 a, of "\<lparr>dateNow = 1, newDate = 1\<rparr>" None "\<lparr>dateNow = 2, newDate = 2\<rparr>"]
  note i1 = s1 [THEN conjunct2, THEN conjunct1] s1 [THEN conjunct2, THEN conjunct2]
  note s2 = turn_resolved [OF i1 b, of "\<lparr>dateNow = 3, newDate = 3\<rparr>" None "\<lparr>dateNow = 4, newDate = 4\<rparr>"]
  note i2 = s2 [THEN conjunct2, THEN conjunct1] s2 [THEN conjunct2, THEN conjunct2]
  note s3 = turn_resolved [OF i2 c, of "\<lparr>dateNow = 5, newDate = 5\<rparr>" None "\<lparr>dateNow = 6, newDate = 6\<rparr>"]
  note i3 = s3 [THEN conjunct2, THEN conjunct1] s3 [THEN conjunct2, THEN conjunct2]
  have m3: "map content (messages (ui ?w3)) =
      [content (greeting 0), js ''a'', js ''A'', js ''b'', js ''B'', js ''c'', js ''C'']"
    by (simp only: s3 [THEN conjunct1] s2 [THEN conjunct1] s1 [THEN conjunct1] m0 append.simps)
  note typed = input_change_fields [OF i3(1), of "js ''d''"]
  note input = typed [THEN conjunct1] and same = typed [THEN conjunct2]
  have h: "\<not> list_all isWhiteSpace (inputMessage (ui ?w))"
    by (simp only: input d not_False_eq_True)
  have msgs: "map content (messages (ui ?w)) =
      [content (greeting 0), js ''a'', js ''A'', js ''b'', js ''B'', js ''c'', js ''C'']"
    by (simp only: same m3)
  from context_at_most_five_in_order [OF h, of "\<lparr>dateNow = 7, newDate = 7\<rparr>"]
  obtain req where r: "sent (submit \<lparr>dateNow = 7, newDate = 7\<rparr> ?w) = sent ?w @ [req] \<and>
      length (body_context req) \<le> 5 \<and>
      length (body_context req) = min 5 (length (messages (ui ?w))) \<and>
      suffix (body_context req) (messages (ui ?w))" ..
  note req = r [THEN conjunct1]
    and le = r [THEN conjunct2, THEN conjunct1]
    and len = r [THEN conjunct2, THEN conjunct2, THEN conjunct1]
    and suf = r [THEN conjunct2, THEN conjunct2, THEN conjunct2]
  note ctx = last_five_of_seven [OF suf len msgs]
  have ex: "\<exists>req. sent (submit \<lparr>dateNow = 7, newDate = 7\<rparr> ?w) = sent ?w @ [req] \<and>
      length (body_context req) \<le> 5 \<and> suffix (body_context req) (messages (ui ?w)) \<and>
      map content (body_context req) = [js ''A'', js ''b'', js ''B'', js ''c'', js ''C'']"
    by (intro exI conjI) (rule req, rule le, rule suf, rule ctx)
  have unfold: "run (?t1 @ ?t2 @ ?t3 @ [InputChange (js ''d'')]) (initial 0) = ?w"
    by (simp only: run_append run_Cons run_Nil)
  show ?thesis
    unfolding Let_def
    by (simp only: append.simps unfold [simplified append.simps]) (intro conjI h msgs ex)
qed

text \<open>
  C8, as the code has it.  The \<open>message\<close> field of the request is the input text as it
  stands in the input field; \<open>trim\<close> is applied in the guard only.  The request also carries
  the selected provider and the selected language.
\<close>

theorem request_carries_input_as_typed:
  assumes nonblank: "\<not> list_all isWhiteSpace (inputMessage (ui w))"
  shows "\<exists>req. sent (submit clk w) = sent w @ [req] \<and>
               body_message req = inputMessage (ui w) \<and>
               body_aiProvider req = selectedAI (ui w) \<and>
               body_language req = selectedLanguage (ui w)"
  by (simp add: submit_nonblank [OF nonblank] requestBody_def)

text \<open>The input \<open>" visa "\<close> is sent with its spaces.\<close>

theorem request_carries_input_as_typed_witness:
  "\<not> list_all isWhiteSpace (inputMessage (ui (dispatch (InputChange (js '' visa '')) (initial 0)))) \<and>
   (\<exists>req. sent (submit \<lparr>dateNow = 6, newDate = 6\<rparr>
                  (dispatch (InputChange (js '' visa '')) (initial 0))) =
            sent (dispatch (InputChange (js '' visa '')) (initial 0)) @ [req] \<and>
          body_message req = inputMessage (ui (dispatch (InputChange (js '' visa '')) (initial 0))))"
proof -
  have h: "\<not> list_all isWhiteSpace (inputMessage (ui (dispatch (InputChange (js '' visa '')) (initial 0))))"
    by (simp add: initial_def perform_def js_def isWhiteSpace_def)
  from request_carries_input_as_typed [OF h, of "\<lparr>dateNow = 6, newDate = 6\<rparr>"] h
  show ?thesis by blast
qed

text \<open>
  C8 as stated fails: for the input \<open>" hi"\<close> the \<open>message\<close> field sent is \<open>" hi"\<close>, while
  the trimmed input is \<open>"hi"\<close>.
\<close>

theorem request_message_not_trimmed:
  "map body_message
     (sent (submit \<lparr>dateNow = 0, newDate = 0\<rparr> (dispatch (InputChange (js '' hi'')) (initial 0)))) =
     [js '' hi''] \<and>
   trim (inputMessage (ui (dispatch (InputChange (js '' hi'')) (initial 0)))) = js ''hi'' \<and>
   js '' hi'' \<noteq> js ''hi''"
  by (simp add: submit_def handleSendMessage_def initial_def perform_def requestBody_def
        trim_def js_def isWhiteSpace_def)

subsection \<open>The fallback text\<close>

text \<open>
  C7, as the code has it.  When the call of a waiting run resolves to a body other than
  \<open>null\<close> that has no \<open>response\<close> field, the assistant message appended has the fixed
  apology of line 92 as content.
\<close>

theorem missing_response_falls_back:
  assumes i: "i < length (inflight w)"
    and missing: "data_response data = None"
  shows "\<exists>m. messages (ui (settle i (JsonResolved (Some data)) clk w)) = messages (ui w) @ [m] \<and>
             content m = fallbackText \<and>
             content m = js ''I'm sorry, I couldn't process your request right now. Please try again.'' \<and>
             sender m = Ai"
  using missing by (simp add: settle_resolved [OF i] aiMessage_def fallbackText_def)

text \<open>A body with a department only.\<close>

theorem missing_response_falls_back_witness:
  "0 < length (inflight (submit \<lparr>dateNow = 3, newDate = 3\<rparr> (dispatch (QuickAction 2) (initial 0)))) \<and>
   data_response \<lparr>data_response = None, data_department = Some (js ''Visa'')\<rparr> = None \<and>
   (\<exists>m. messages (ui (settle 0
             (JsonResolved (Some \<lparr>data_response = None, data_department = Some (js ''Visa'')\<rparr>))
             \<lparr>dateNow = 7, newDate = 8\<rparr>
             (submit \<lparr>dateNow = 3, newDate = 3\<rparr> (dispatch (QuickAction 2) (initial 0))))) =
         messages (ui (submit \<lparr>dateNow = 3, newDate = 3\<rparr> (dispatch (QuickAction 2) (initial 0)))) @ [m] \<and>
         content m = fallbackText)"
proof -
  let ?w = "submit \<lparr>dateNow = 3, newDate = 3\<rparr> (dispatch (QuickAction 2) (initial 0))"
  have h: "0 < length (inflight ?w)"
    by (simp add: submit_def handleSendMessage_def perform_def initial_def quickActions_def
          trim_def js_def isWhiteSpace_def)
  have h2: "data_response \<lparr>data_response = None, data_department = Some (js ''Visa'')\<rparr> = None"
    by simp
  from missing_response_falls_back [OF h h2, of "\<lparr>dateNow = 7, newDate = 8\<rparr>"] h h2
  show ?thesis by blast
qed

text \<open>
  C7 as stated fails: the body \<open>null\<close> is a JSON body without a \<open>response\<close> field, but
  reading \<open>data.response\<close> throws, and the message appended is the error text of line
  112, which is not the apology.
\<close>

theorem null_body_appends_error_text:
  "map content
     (messages (ui (settle 0 (JsonResolved None) \<lparr>dateNow = 5, newDate = 5\<rparr>
                      (submit \<lparr>dateNow = 3, newDate = 3\<rparr>
                         (dispatch (InputChange (js ''hi'')) (initial 0)))))) =
     [content (greeting 0), js ''hi'', errorText] \<and>
   errorText \<noteq> fallbackText"
proof -
  have "map content
     (messages (ui (settle 0 (JsonResolved None) \<lparr>dateNow = 5, newDate = 5\<rparr>
                      (submit \<lparr>dateNow = 3, newDate = 3\<rparr>
                         (dispatch (InputChange (js ''hi'')) (initial 0)))))) =
     [content (greeting 0), js ''hi'', errorText]"
    by (simp add: settle_def submit_def handleSendMessage_def handleSendMessage_resume_def
          try_block_def catch_block_def finally_block_def perform_def userMessage_def
          errorMessage_def initial_def trim_def isWhiteSpace_def js_def Let_def)
  moreover have "errorText \<noteq> fallbackText"
    by (simp add: js_def errorText_def fallbackText_def)
  ultimately show ?thesis by simp
qed

subsection \<open>The conversation only grows\<close>

text \<open>
  C9.  For every state and every event (user action or settling of a call), the messages
  before the event are a prefix of the messages after it; the same holds over any sequence
  of events.
\<close>

theorem messages_append_only:
  "prefix (messages (ui w)) (messages (ui (dispatch e w))) \<and>
   prefix (messages (ui w)) (messages (ui (run es w)))"
  by (simp add: dispatch_prefix run_prefix)

text \<open>
  C10.  The \<open>context\<close> of a submission's request is the tail of the conversation as it
  was before the submission: the conversation after the synchronous part is the older
  messages, then the context, then the new user message, which therefore lies outside the
  context.
\<close>

theorem context_precedes_user_message:
  assumes nonblank: "\<not> list_all isWhiteSpace (inputMessage (ui w))"
  shows "\<exists>req m older.
           sent (submit clk w) = sent w @ [req] \<and>
           body_context req = slice_last 5 (messages (ui w)) \<and>
           messages (ui w) = older @ body_context req \<and>
           messages (ui (submit clk w)) = older @ body_context req @ [m] \<and>
           sender m = User \<and> content m = inputMessage (ui w)"
proof -
  let ?req = "requestBody (ui w)" and ?m = "userMessage clk (ui w)"
  let ?older = "take (length (messages (ui w)) - 5) (messages (ui w))"
  note s = submit_nonblank [OF nonblank, of clk]
  have ctx: "body_context ?req = slice_last 5 (messages (ui w))"
    by (simp add: requestBody_def)
  have split: "messages (ui w) = ?older @ body_context ?req"
    by (simp add: ctx slice_last_def)
  have "sent (submit clk w) = sent w @ [?req]"
    by (simp add: s)
  moreover have "messages (ui (submit clk w)) = messages (ui w) @ [?m]"
    by (simp add: s)
  with split have "messages (ui (submit clk w)) = ?older @ body_context ?req @ [?m]"
    by simp
  moreover have "sender ?m = User \<and> content ?m = inputMessage (ui w)"
    by (simp add: userMessage_def)
  ultimately show ?thesis using ctx split by blast
qed

text \<open>The fourth quick question, submitted from the first render.\<close>

theorem context_precedes_user_message_witness:
  "\<not> list_all isWhiteSpace (inputMessage (ui (dispatch (QuickAction 3) (initial 0)))) \<and>
   (\<exists>req m older.
      sent (submit \<lparr>dateNow = 11, newDate = 12\<rparr> (dispatch (QuickAction 3) (initial 0))) =
        sent (dispatch (QuickAction 3) (initial 0)) @ [req] \<and>
      messages (ui (dispatch (QuickAction 3) (initial 0))) = older @ body_context req \<and>
      messages (ui (submit \<lparr>dateNow = 11, newDate = 12\<rparr> (dispatch (QuickAction 3) (initial 0)))) =
        older @ body_context req @ [m])"
proof -
  have h: "\<not> list_all isWhiteSpace (inputMessage (ui (dispatch (QuickAction 3) (initial 0))))"
    by (simp add: initial_def perform_def quickActions_def js_def isWhiteSpace_def)
  from context_precedes_user_message [OF h, of "\<lparr>dateNow = 11, newDate = 12\<rparr>"] h
  show ?thesis by blast
qed

subsection \<open>The loading flag\<close>

text \<open>
  C6.  In a reachable state whose controls are enabled, a submission of input that is not
  blank (by the Enter key or by the send button) sets \<open>isLoading\<close>.  It stays set through
  everything the user does while the call is outstanding, and this call is the only one
  outstanding.  However the call settles, the last effect of the continuation is
  \<open>setIsLoading(false)\<close>, and \<open>isLoading\<close> is false afterwards.
\<close>

theorem loading_from_submit_until_settled:
  assumes reach: "reachable w"
    and enabled: "\<not> isLoading (ui w)"
    and nonblank: "\<not> list_all isWhiteSpace (inputMessage (ui w))"
    and user: "\<forall>e\<in>set es. user_event e"
  shows "dispatch (InputKeyPress Enter clk) w = submit clk w \<and>
         dispatch (SendClick clk) w = submit clk w \<and>
         isLoading (ui (submit clk w)) \<and>
         isLoading (ui (run es (submit clk w))) \<and>
         inflight (run es (submit clk w)) = [ui w] \<and>
         last (effects (handleSendMessage_resume clk' (ui w) out)) = SetIsLoading False \<and>
         \<not> isLoading (ui (settle 0 out clk' (run es (submit clk w)))) \<and>
         inflight (settle 0 out clk' (run es (submit clk w))) = []"
proof -
  let ?w1 = "submit clk w"
  from reachable_inflight [OF reach] enabled have idle: "inflight w = []"
    by auto
  note s = submit_nonblank [OF nonblank, of clk]
  have loading: "isLoading (ui ?w1)"
    by (simp add: s)
  from user_events_while_loading [OF user loading]
  have between: "isLoading (ui (run es ?w1))" and waiting: "inflight (run es ?w1) = [ui w]"
    by (simp_all add: s idle)
  from waiting have "0 < length (inflight (run es ?w1))"
    by simp
  from settle_not_loading [OF this, of out clk'] waiting
  have after: "\<not> isLoading (ui (settle 0 out clk' (run es ?w1)))"
    and none: "inflight (settle 0 out clk' (run es ?w1)) = []"
    by simp_all
  have "dispatch (InputKeyPress Enter clk) w = ?w1" and "dispatch (SendClick clk) w = ?w1"
    using enabled nonblank by (simp_all add: trim_Nil_iff)
  with loading between waiting after none resume_last [of clk' "ui w" out]
  show ?thesis by simp
qed

text \<open>Typing \<open>hi\<close>, submitting, two user actions, then a rejected \<open>response.json()\<close>.\<close>

theorem loading_from_submit_until_settled_witness:
  "reachable (dispatch (InputChange (js ''hi'')) (initial 0)) \<and>
   \<not> isLoading (ui (dispatch (InputChange (js ''hi'')) (initial 0))) \<and>
   \<not> list_all isWhiteSpace (inputMessage (ui (dispatch (InputChange (js ''hi'')) (initial 0)))) \<and>
   user_event (SelectLanguage (js ''ar'')) \<and> user_event (QuickAction 0) \<and>
   isLoading (ui (submit \<lparr>dateNow = 1, newDate = 1\<rparr> (dispatch (InputChange (js ''hi'')) (initial 0)))) \<and>
   isLoading (ui (run [SelectLanguage (js ''ar''), QuickAction 0]
                    (submit \<lparr>dateNow = 1, newDate = 1\<rparr> (dispatch (InputChange (js ''hi'')) (initial 0))))) \<and>
   \<not> isLoading (ui (settle 0 JsonRejected \<lparr>dateNow = 2, newDate = 2\<rparr>
                     (run [SelectLanguage (js ''ar''), QuickAction 0]
                        (submit \<lparr>dateNow = 1, newDate = 1\<rparr>
                           (dispatch (InputChange (js ''hi'')) (initial 0))))))"
proof -
  let ?w = "dispatch (InputChange (js ''hi'')) (initial 0)"
  have h1: "reachable ?w"
    by (rule reachable_dispatch [OF reachable_initial])
  have h2: "\<not> isLoading (ui ?w)"
    by (simp add: initial_def perform_def)
  have h3: "\<not> list_all isWhiteSpace (inputMessage (ui ?w))"
    by (simp add: initial_def perform_def js_def isWhiteSpace_def)
  have h4: "\<forall>e\<in>set [SelectLanguage (js ''ar''), QuickAction 0]. user_event e"
    by simp
  have u: "user_event (SelectLanguage (js ''ar'')) \<and> user_event (QuickAction 0)"
    by simp
  from loading_from_submit_until_settled
         [OF h1 h2 h3 h4, of "\<lparr>dateNow = 1, newDate = 1\<rparr>" "\<lparr>dateNow = 2, newDate = 2\<rparr>" JsonRejected]
       h1 h2 h3 u
  show ?thesis by blast
qed

end
